theory Spec2Isabelle
  imports Complex_Main
begin

section \<open>Exceptions and outcomes\<close>

text \<open>
  The Python exceptions the modelled functions can raise.  A call either returns a value
  or raises; \<open>Raised e\<close> is the exception leaving the function.
\<close>

datatype exn =
    ZeroDivisionError
  | OSError
  | FileNotFoundError
  | ScreenShotError nat
  | RuntimeError string
  | WebSocketTimeoutException
  | WebSocketException
  | KeyError
  | ValueError
  | OpenRouterError string

datatype 'a outcome = Returned 'a | Raised exn

section \<open>Frame capture: \<open>capture_frames\<close>\<close>

text \<open>
  \<^verbatim>\<open>f"frame_{frame_count:04d}.png"\<close>: the decimal digits of the counter, padded with zeros
  on the left to at least four characters.
\<close>

fun dec_digits :: "nat \<Rightarrow> string" where
  "dec_digits n =
     (if n < 10 then [''0123456789'' ! n]
      else dec_digits (n div 10) @ [''0123456789'' ! (n mod 10)])"

declare dec_digits.simps [simp del]

definition pad4 :: "string \<Rightarrow> string" where
  "pad4 s = replicate (4 - length s) CHR ''0'' @ s"

definition frame_path :: "string \<Rightarrow> nat \<Rightarrow> string" where
  "frame_path output_dir frame_count =
     output_dir @ ''/'' @ ''frame_'' @ pad4 (dec_digits frame_count) @ ''.png''"

text \<open>The capture rectangle handed to the screen grabber.\<close>

record region =
  left :: int
  top :: int
  width :: int
  height :: int

text \<open>
  What the function does to the outside world, in order: it creates the output
  directory, then grabs the region and writes one PNG per frame.
\<close>

datatype capture_effect = Mkdir string | GrabToPng region string

text \<open>
  The environment of one call: whether \<open>mkdir\<close> raises, the successive readings of
  \<^verbatim>\<open>time.perf_counter()\<close> (reading \<open>0\<close> is \<open>start_time\<close>, one more reading per loop
  iteration), and whether grabbing or writing frame \<open>k\<close> raises.  Python floats are
  taken as exact rationals.
\<close>

record capture_env =
  mkdir_fails :: bool
  perf_counter :: "nat \<Rightarrow> rat"
  grab_fails :: "nat \<Rightarrow> bool"

text \<open>Python's \<open>int(x)\<close> on a number: truncation towards zero.\<close>

definition py_int :: "rat \<Rightarrow> int" where
  "py_int x = (if 0 \<le> x then \<lfloor>x\<rfloor> else \<lceil>x\<rceil>)"

text \<open>
  The \<^verbatim>\<open>while frame_count < target_frames\<close> loop.  \<open>tick\<close> counts the clock readings
  taken so far.  The loop need not end (a clock that stands still never makes a frame
  due), so not returning is the value \<open>None\<close>.  The result is \<open>frame_paths\<close> at the exit
  and the exception, if one ended the loop.
\<close>

partial_function (option) capture_loop ::
  "capture_env \<Rightarrow> string \<Rightarrow> rat \<Rightarrow> rat \<Rightarrow> int \<Rightarrow> nat \<Rightarrow> nat \<Rightarrow> string list
     \<Rightarrow> (string list \<times> exn option) option"
where
  "capture_loop env output_dir start_time interval target_frames tick frame_count frame_paths =
     (if int frame_count < target_frames then
        (if perf_counter env tick - start_time \<ge> of_nat frame_count * interval then
           (if grab_fails env frame_count
            then Some (frame_paths, Some (ScreenShotError frame_count))
            else capture_loop env output_dir start_time interval target_frames
                   (tick + 1) (frame_count + 1)
                   (frame_paths @ [frame_path output_dir frame_count]))
         else capture_loop env output_dir start_time interval target_frames
                (tick + 1) frame_count frame_paths)
      else Some (frame_paths, None))"

declare capture_loop.simps [code]

definition capture_frames ::
  "capture_env \<Rightarrow> region \<Rightarrow> rat \<Rightarrow> rat \<Rightarrow> string
     \<Rightarrow> (capture_effect list \<times> string list outcome) option"
where
  "capture_frames env rg duration fps output_dir =
     (if mkdir_fails env then Some ([], Raised OSError)
      else if fps = 0 then Some ([Mkdir output_dir], Raised ZeroDivisionError)
      else
        let interval = 1 / fps;
            start_time = perf_counter env 0;
            target_frames = py_int (duration * fps)
        in map_option
             (\<lambda>(frame_paths, ex).
                (Mkdir output_dir # map (GrabToPng rg) frame_paths,
                 case ex of None \<Rightarrow> Returned frame_paths | Some e \<Rightarrow> Raised e))
             (capture_loop env output_dir start_time interval target_frames 1 0 []))"

section \<open>Target discovery: \<open>_wait_for_debugger_target\<close>\<close>

subsection \<open>The library functions it calls\<close>

text \<open>
  \<^verbatim>\<open>urllib.parse.unquote\<close>: every \<open>%\<close> followed by two hexadecimal digits becomes the
  byte they denote; anything else is kept.  Strings are byte sequences (UTF-8), so the
  decoded byte is put in place.
\<close>

definition hex_digit :: "char \<Rightarrow> nat option" where
  "hex_digit c =
     (let n = (of_char c :: nat) in
      if 48 \<le> n \<and> n \<le> 57 then Some (n - 48)
      else if 65 \<le> n \<and> n \<le> 70 then Some (n - 55)
      else if 97 \<le> n \<and> n \<le> 102 then Some (n - 87)
      else None)"

fun unquote :: "string \<Rightarrow> string" where
  "unquote (c # h # l # rest) =
     (if c = CHR ''%'' then
        (case (hex_digit h, hex_digit l) of
           (Some a, Some b) \<Rightarrow> char_of (16 * a + b) # unquote rest
         | _ \<Rightarrow> c # unquote (h # l # rest))
      else c # unquote (h # l # rest))"
| "unquote cs = cs"

text \<open>
  \<^verbatim>\<open>urllib.parse.urlparse(u).path\<close>: drop a leading scheme (a letter, then letters,
  digits, \<open>+\<close>, \<open>-\<close>, \<open>.\<close>, then a colon), drop the network location after \<open>//\<close> up to the
  next \<open>/\<close>, \<open>?\<close> or \<open>#\<close>, cut the fragment at the first \<open>#\<close> and the query at the first
  \<open>?\<close>; for the schemes that carry parameters cut the parameters of the last segment at
  its first \<open>;\<close>.  (The stripping of leading control characters and the bracket check of
  the network location are left out.)
\<close>

definition is_alpha :: "char \<Rightarrow> bool" where
  "is_alpha c =
     (let n = (of_char c :: nat) in (65 \<le> n \<and> n \<le> 90) \<or> (97 \<le> n \<and> n \<le> 122))"

definition is_scheme_char :: "char \<Rightarrow> bool" where
  "is_scheme_char c =
     (let n = (of_char c :: nat) in
      is_alpha c \<or> (48 \<le> n \<and> n \<le> 57) \<or> c = CHR ''+'' \<or> c = CHR ''-'' \<or> c = CHR ''.'')"

definition lower_char :: "char \<Rightarrow> char" where
  "lower_char c =
     (let n = (of_char c :: nat) in if 65 \<le> n \<and> n \<le> 90 then char_of (n + 32) else c)"

definition split_scheme :: "string \<Rightarrow> string \<times> string" where
  "split_scheme u =
     (let pre = takeWhile (\<lambda>c. c \<noteq> CHR '':'') u in
      if length pre < length u \<and> pre \<noteq> [] \<and> is_alpha (hd pre) \<and> list_all is_scheme_char pre
      then (map lower_char pre, drop (length pre + 1) u)
      else ([], u))"

definition split_netloc :: "string \<Rightarrow> string" where
  "split_netloc u =
     (if take 2 u = ''//''
      then dropWhile (\<lambda>c. c \<noteq> CHR ''/'' \<and> c \<noteq> CHR ''?'' \<and> c \<noteq> CHR ''#'') (drop 2 u)
      else u)"

definition uses_params :: "string list" where
  "uses_params = [[], ''ftp'', ''hdl'', ''prospero'', ''http'', ''imap'', ''https'', ''shttp'',
                  ''rtsp'', ''rtspu'', ''sip'', ''sips'', ''mms'', ''sftp'', ''tel'']"

fun split_on :: "char \<Rightarrow> string \<Rightarrow> string list" where
  "split_on d [] = [[]]"
| "split_on d (c # cs) =
     (case split_on d cs of
        [] \<Rightarrow> [[c]]
      | w # ws \<Rightarrow> if c = d then [] # w # ws else (c # w) # ws)"

definition join_with :: "char \<Rightarrow> string list \<Rightarrow> string" where
  "join_with d ws = (case ws of [] \<Rightarrow> [] | w # r \<Rightarrow> w @ concat (map (\<lambda>x. d # x) r))"

definition split_params :: "string \<Rightarrow> string" where
  "split_params u =
     (let segs = split_on CHR ''/'' u
      in join_with CHR ''/'' (butlast segs @ [takeWhile (\<lambda>c. c \<noteq> CHR '';'') (last segs)]))"

definition url_path :: "string \<Rightarrow> string" where
  "url_path u =
     (let (scheme, r1) = split_scheme u;
          r2 = split_netloc r1;
          r3 = takeWhile (\<lambda>c. c \<noteq> CHR ''#'') r2;
          r4 = takeWhile (\<lambda>c. c \<noteq> CHR ''?'') r3
      in if scheme \<in> set uses_params then split_params r4 else r4)"

text \<open>
  \<^verbatim>\<open>pathlib.Path(p).name\<close> on a POSIX system: the last component of the path, empty
  segments and \<open>.\<close> segments not counting; the empty string when there is none.
\<close>

definition path_name :: "string \<Rightarrow> string" where
  "path_name p =
     (case filter (\<lambda>seg. seg \<noteq> [] \<and> seg \<noteq> ''.'') (split_on CHR ''/'' p) of
        [] \<Rightarrow> []
      | seg # segs \<Rightarrow> last (seg # segs))"

subsection \<open>Target descriptors and the polling loop\<close>

text \<open>
  One entry of the \<^verbatim>\<open>/json\<close> discovery list; a key the entry does not have is \<open>None\<close>.
\<close>

record debug_target =
  entry_type :: "string option"
  entry_url :: "string option"
  entry_ws :: "string option"
  entry_id :: "string option"
  entry_targetId :: "string option"

text \<open>Python truth of an optional string: \<open>None\<close> and the empty string are false.\<close>

definition truthy :: "string option \<Rightarrow> bool" where
  "truthy v = (case v of None \<Rightarrow> False | Some s \<Rightarrow> s \<noteq> [])"

text \<open>\<^verbatim>\<open>a or b\<close> on optional strings.\<close>

definition py_or :: "string option \<Rightarrow> string option \<Rightarrow> string option" where
  "py_or a b = (if truthy a then a else b)"

text \<open>The condition of line 160: decoded equality, raw equality, or the same file name.\<close>

definition url_matches :: "string \<Rightarrow> debug_target \<Rightarrow> bool" where
  "url_matches target_url entry =
     (let target_unquoted = unquote target_url;
          target_name = path_name (url_path target_unquoted);
          e_url = (case entry_url entry of None \<Rightarrow> [] | Some u \<Rightarrow> u);
          entry_unquoted = unquote e_url;
          entry_name = path_name (url_path entry_unquoted)
      in entry_unquoted = target_unquoted \<or> e_url = target_url
         \<or> (target_name \<noteq> [] \<and> entry_name = target_name))"

text \<open>
  The \<^verbatim>\<open>for entry in payload\<close> loop of one poll: \<open>Returned (Some r)\<close> is its
  \<^verbatim>\<open>return ws_url, target_id\<close>, \<open>Returned None\<close> is the loop running off the list, and
  \<open>Raised\<close> is the \<^verbatim>\<open>raise RuntimeError\<close> of line 163.
\<close>

fun scan_entries :: "string \<Rightarrow> debug_target list \<Rightarrow> (string \<times> string) option outcome" where
  "scan_entries target_url [] = Returned None"
| "scan_entries target_url (entry # payload) =
     (if entry_type entry \<noteq> Some ''page'' then scan_entries target_url payload
      else if \<not> truthy (entry_ws entry) then scan_entries target_url payload
      else if url_matches target_url entry then
        (let target_id = py_or (entry_id entry) (entry_targetId entry)
         in if \<not> truthy target_id
            then Raised (RuntimeError ''DevTools target id not found for page.'')
            else Returned (Some (the (entry_ws entry), the target_id)))
      else scan_entries target_url payload)"

text \<open>
  One element per iteration that the test \<^verbatim>\<open>time.time() - start < timeout\<close> lets through:
  the request to the discovery endpoint fails (or its body is not a list of objects), or
  it delivers a list of entries.
\<close>

datatype poll = PollFailed | Payload "debug_target list"

text \<open>
  The bare \<^verbatim>\<open>except: pass\<close> swallows every exception of the loop body, the
  \<^verbatim>\<open>RuntimeError\<close> of line 163 included; the only error that leaves the function is the
  time-out after the loop.
\<close>

fun wait_for_debugger_target :: "poll list \<Rightarrow> string \<Rightarrow> (string \<times> string) outcome" where
  "wait_for_debugger_target [] target_url =
     Raised (RuntimeError ''Timed out waiting for DevTools endpoint'')"
| "wait_for_debugger_target (PollFailed # polls) target_url =
     wait_for_debugger_target polls target_url"
| "wait_for_debugger_target (Payload payload # polls) target_url =
     (case scan_entries target_url payload of
        Returned (Some r) \<Rightarrow> Returned r
      | Returned None \<Rightarrow> wait_for_debugger_target polls target_url
      | Raised e \<Rightarrow> wait_for_debugger_target polls target_url)"

section \<open>Protocol helpers over one socket connection\<close>

text \<open>
  The fields of an incoming message that the code reads.  \<^verbatim>\<open>msg.get("result", {}).get(k)\<close>
  is \<open>None\<close> when the message has no \<open>result\<close> or the result has no key \<open>k\<close>.
\<close>

record bounds_dict =
  b_left :: "int option"
  b_top :: "int option"
  b_width :: "int option"
  b_height :: "int option"
  b_windowState :: "string option"

record viewport =
  screenX :: int
  screenY :: int
  ow :: int
  oh :: int
  iw :: int
  ih :: int

record cdp_result =
  windowId :: "int option"
  bounds :: "bounds_dict option"
  eval_value :: "viewport option"

record cdp_message =
  msg_id :: "int option"
  msg_method :: "string option"
  msg_result :: "cdp_result option"

text \<open>A request written to the socket: its hard-coded id and its method.\<close>

datatype cdp_request = Request int string

text \<open>One call of \<^verbatim>\<open>ws.recv()\<close>: a decoded message, or the exception it raises.\<close>

datatype recv = Recv cdp_message | RecvRaises exn

text \<open>
  What one helper call meets: the polls of its own target discovery, whether
  \<^verbatim>\<open>create_connection\<close> raises, and what its \<^verbatim>\<open>recv\<close> calls deliver, in order.
\<close>

record session_env =
  polls :: "poll list"
  connect_fails :: bool
  received :: "recv list"

text \<open>
  A single blocking \<^verbatim>\<open>ws.recv()\<close> under the socket time-out: the next incoming message,
  whatever it is; when nothing arrives the call raises the time-out exception.
\<close>

fun ws_recv :: "recv list \<Rightarrow> (cdp_message \<times> recv list) outcome" where
  "ws_recv [] = Raised WebSocketTimeoutException"
| "ws_recv (Recv msg # rest) = Returned (msg, rest)"
| "ws_recv (RecvRaises e # rest) = Raised e"

definition result_windowId :: "cdp_message \<Rightarrow> int option" where
  "result_windowId msg = (case msg_result msg of None \<Rightarrow> None | Some r \<Rightarrow> windowId r)"

definition result_bounds :: "cdp_message \<Rightarrow> bounds_dict option" where
  "result_bounds msg = (case msg_result msg of None \<Rightarrow> None | Some r \<Rightarrow> bounds r)"

definition result_value :: "cdp_message \<Rightarrow> viewport option" where
  "result_value msg = (case msg_result msg of None \<Rightarrow> None | Some r \<Rightarrow> eval_value r)"

subsection \<open>\<open>_wait_for_load_event\<close>\<close>

text \<open>
  The loop \<^verbatim>\<open>while time.time() - start < timeout\<close>: one list element per iteration the
  time test lets through.  A time-out of \<^verbatim>\<open>recv\<close> continues the loop, any other exception
  leaves it.  When the time is up the loop ends and the function returns \<^verbatim>\<open>None\<close>:
  there is no statement after the loop.
\<close>

fun load_event_loop :: "recv list \<Rightarrow> unit outcome" where
  "load_event_loop [] = Returned ()"
| "load_event_loop (Recv msg # rest) =
     (if msg_method msg = Some ''Page.loadEventFired'' then Returned ()
      else load_event_loop rest)"
| "load_event_loop (RecvRaises e # rest) =
     (if e = WebSocketTimeoutException then load_event_loop rest else Raised e)"

definition wait_for_load_event :: "session_env \<Rightarrow> string \<Rightarrow> cdp_request list \<times> unit outcome" where
  "wait_for_load_event s target_url =
     (case wait_for_debugger_target (polls s) target_url of
        Raised e \<Rightarrow> ([], Raised e)
      | Returned (ws_url, target_id) \<Rightarrow>
          if connect_fails s then ([], Raised WebSocketException)
          else ([Request 1 ''Page.enable'', Request 2 ''Page.reload''],
                load_event_loop (received s)))"

subsection \<open>\<open>_bring_target_to_front\<close>, \<open>_set_window_bounds\<close>, \<open>_get_window_bounds\<close>, \<open>_evaluate_script\<close>\<close>

definition bring_target_to_front :: "session_env \<Rightarrow> string \<Rightarrow> cdp_request list \<times> unit outcome" where
  "bring_target_to_front s target_url =
     (case wait_for_debugger_target (polls s) target_url of
        Raised e \<Rightarrow> ([], Raised e)
      | Returned (ws_url, target_id) \<Rightarrow>
          if connect_fails s then ([], Raised WebSocketException)
          else ([Request 1 ''Page.bringToFront''], Returned ()))"

definition set_window_bounds :: "session_env \<Rightarrow> string \<Rightarrow> cdp_request list \<times> unit outcome" where
  "set_window_bounds s target_url =
     (case wait_for_debugger_target (polls s) target_url of
        Raised e \<Rightarrow> ([], Raised e)
      | Returned (ws_url, target_id) \<Rightarrow>
          if connect_fails s then ([], Raised WebSocketException)
          else
            (case ws_recv (received s) of
               Raised e \<Rightarrow> ([Request 1 ''Browser.getWindowForTarget''], Raised e)
             | Returned (msg, rest) \<Rightarrow>
                 (case result_windowId msg of
                    None \<Rightarrow> ([Request 1 ''Browser.getWindowForTarget''], Returned ())
                  | Some window_id \<Rightarrow>
                      ([Request 1 ''Browser.getWindowForTarget'',
                        Request 2 ''Browser.setWindowBounds''],
                       case ws_recv rest of
                         Raised e \<Rightarrow> Raised e
                       | Returned r \<Rightarrow> Returned ()))))"

definition get_window_bounds ::
  "session_env \<Rightarrow> string \<Rightarrow> cdp_request list \<times> bounds_dict option outcome"
where
  "get_window_bounds s target_url =
     (case wait_for_debugger_target (polls s) target_url of
        Raised e \<Rightarrow> ([], Raised e)
      | Returned (ws_url, target_id) \<Rightarrow>
          if connect_fails s then ([], Raised WebSocketException)
          else
            (case ws_recv (received s) of
               Raised e \<Rightarrow> ([Request 3 ''Browser.getWindowForTarget''], Raised e)
             | Returned (msg, rest) \<Rightarrow>
                 (case result_windowId msg of
                    None \<Rightarrow> ([Request 3 ''Browser.getWindowForTarget''], Returned None)
                  | Some window_id \<Rightarrow>
                      ([Request 3 ''Browser.getWindowForTarget'',
                        Request 4 ''Browser.getWindowBounds''],
                       case ws_recv rest of
                         Raised e \<Rightarrow> Raised e
                       | Returned (msg2, rest2) \<Rightarrow> Returned (result_bounds msg2)))))"

definition evaluate_script ::
  "session_env \<Rightarrow> string \<Rightarrow> cdp_request list \<times> viewport option outcome"
where
  "evaluate_script s target_url =
     (case wait_for_debugger_target (polls s) target_url of
        Raised e \<Rightarrow> ([], Raised e)
      | Returned (ws_url, target_id) \<Rightarrow>
          if connect_fails s then ([], Raised WebSocketException)
          else
            ([Request 50 ''Runtime.evaluate''],
             case ws_recv (received s) of
               Raised e \<Rightarrow> Raised e
             | Returned (resp, rest) \<Rightarrow> Returned (result_value resp)))"

section \<open>Capture region (\<open>main\<close>, lines 349 to 371)\<close>

text \<open>\<^verbatim>\<open>int(bounds.get(k, 0))\<close>.\<close>

definition get0 :: "int option \<Rightarrow> int" where
  "get0 v = (case v of None \<Rightarrow> 0 | Some n \<Rightarrow> n)"

text \<open>\<^verbatim>\<open>not bounds\<close>: no bounds at all, or a dictionary without any key.\<close>

definition bounds_falsy :: "bounds_dict option \<Rightarrow> bool" where
  "bounds_falsy b =
     (case b of
        None \<Rightarrow> True
      | Some d \<Rightarrow> b_left d = None \<and> b_top d = None \<and> b_width d = None \<and> b_height d = None
                  \<and> b_windowState d = None)"

text \<open>
  The region from the window bounds and the evaluated viewport metrics; \<open>div\<close> on \<open>int\<close>
  rounds towards minus infinity, as Python's \<^verbatim>\<open>//\<close> does.
\<close>

definition compute_region :: "bounds_dict \<Rightarrow> viewport option \<Rightarrow> region" where
  "compute_region bnds vp =
     (case vp of
        Some v \<Rightarrow>
          (let border_top = oh v - ih v;
               border_left = (ow v - iw v) div 2
           in \<lparr>left = get0 (b_left bnds) + border_left,
               top = get0 (b_top bnds) + border_top,
               width = iw v,
               height = ih v\<rparr>)
      | None \<Rightarrow>
          \<lparr>left = get0 (b_left bnds),
           top = get0 (b_top bnds),
           width = get0 (b_width bnds),
           height = get0 (b_height bnds)\<rparr>)"

definition check_region :: "region \<Rightarrow> region outcome" where
  "check_region rg =
     (if width rg \<le> 0 \<or> height rg \<le> 0
      then Raised (RuntimeError ''Invalid window bounds detected.'')
      else Returned rg)"

text \<open>
  The region as the design text words it, with an exact quotient: left edge
  \<open>bounds.left + (outerWidth - innerWidth) / 2\<close>.
\<close>

definition spec_region_left :: "int \<Rightarrow> viewport \<Rightarrow> rat" where
  "spec_region_left bounds_left v = of_int bounds_left + (of_int (ow v) - of_int (iw v)) / 2"

section \<open>Vision request client: \<open>OpenRouterClient.chat\<close>\<close>

text \<open>
  What one \<^verbatim>\<open>session.post\<close> brings: it raises a \<^verbatim>\<open>requests.RequestException\<close> that
  carries no response (connection error, time-out), or it returns a response with a
  status code and a body.  The body is not JSON (the flag says whether the decoding
  error is also a \<^verbatim>\<open>RequestException\<close>, as in newer versions of the library, or a
  \<^verbatim>\<open>ValueError\<close> only), or an object with an \<open>error\<close> key, or the completion data, of
  which the assistant text \<^verbatim>\<open>data["choices"][0]["message"]["content"]\<close> is kept.
\<close>

datatype body = NotJSON bool | ErrorPayload string | Data "string option"

record http_response =
  status_code :: nat
  body :: body

datatype post_result = PostRaises | PostReturns http_response

text \<open>
  The outcome of the \<^verbatim>\<open>try\<close> body of one attempt: it returns the data, or raises an
  exception the \<^verbatim>\<open>except\<close> clause does not catch, or raises one it catches, of which the
  handler reads whether it is a \<^verbatim>\<open>RequestException\<close> and the status of its response.
\<close>

datatype attempt = Done "string option" | Uncaught exn | Caught bool "nat option"

definition retry_statuses :: "nat set" where
  "retry_statuses = {429, 500, 502, 503, 504}"

text \<open>\<^verbatim>\<open>response.raise_for_status()\<close> raises for the client and server error classes.\<close>

definition raise_for_status :: "nat \<Rightarrow> bool" where
  "raise_for_status st = (400 \<le> st \<and> st < 600)"

definition try_post :: "post_result \<Rightarrow> attempt" where
  "try_post p =
     (case p of
        PostRaises \<Rightarrow> Caught True None
      | PostReturns response \<Rightarrow>
          if status_code response \<in> retry_statuses \<and> raise_for_status (status_code response)
          then Caught True (Some (status_code response))
          else if raise_for_status (status_code response)
          then Caught True (Some (status_code response))
          else
            (case body response of
               NotJSON is_request_exception \<Rightarrow> Caught is_request_exception None
             | ErrorPayload msg \<Rightarrow>
                 Uncaught (OpenRouterError (''OpenRouter returned error payload: '' @ msg))
             | Data data \<Rightarrow> Done data))"

definition show_int :: "int \<Rightarrow> string" where
  "show_int k = (if k < 0 then CHR ''-'' # dec_digits (nat (- k)) else dec_digits (nat k))"

definition failed_after :: "int \<Rightarrow> exn" where
  "failed_after max_retries =
     OpenRouterError (''OpenRouter request failed after '' @ show_int max_retries @ '' attempts.'')"

text \<open>
  \<open>controllers/openrouter_client.py\<close>.  \<open>attempt\<close> is the counter before its increment,
  \<open>post k\<close> the outcome of the \<open>k\<close>-th request, \<open>slept\<close> the arguments of the calls of
  \<^verbatim>\<open>time.sleep\<close> so far.
\<close>

function chat_loop ::
  "(nat \<Rightarrow> post_result) \<Rightarrow> int \<Rightarrow> rat \<Rightarrow> nat \<Rightarrow> rat list \<Rightarrow> rat list \<times> string option outcome"
where
  "chat_loop post max_retries backoff_initial attempt slept =
     (case try_post (post (Suc attempt)) of
        Done data \<Rightarrow> (slept, Returned data)
      | Uncaught e \<Rightarrow> (slept, Raised e)
      | Caught is_request_exception status \<Rightarrow>
          if \<not> ((case status of None \<Rightarrow> False | Some st \<Rightarrow> st \<in> retry_statuses)
                 \<or> is_request_exception)
             \<or> int (Suc attempt) > max_retries
          then (slept, Raised (failed_after max_retries))
          else chat_loop post max_retries backoff_initial (Suc attempt)
                 (slept @ [backoff_initial * 2 ^ (Suc attempt - 1)]))"
  by pat_completeness auto
termination
  by (relation "measure (\<lambda>(post, max_retries, backoff_initial, attempt, slept).
                           nat (max_retries + 1 - int attempt))") auto

declare chat_loop.simps [simp del]

definition chat :: "(nat \<Rightarrow> post_result) \<Rightarrow> int \<Rightarrow> rat \<Rightarrow> rat list \<times> string option outcome" where
  "chat post max_retries backoff_initial = chat_loop post max_retries backoff_initial 0 []"

definition chat_with_vision ::
  "(nat \<Rightarrow> post_result) \<Rightarrow> bool \<Rightarrow> int \<Rightarrow> rat \<Rightarrow> rat list \<times> string option outcome"
where
  "chat_with_vision post images_exist max_retries backoff_initial =
     (if \<not> images_exist then ([], Raised ValueError)
      else chat post max_retries backoff_initial)"

text \<open>
  The copy of the client in \<open>capture_and_analyze_video.py\<close>: its handler retries every
  caught exception until the attempts are used up.
\<close>

function capture_chat_loop ::
  "(nat \<Rightarrow> post_result) \<Rightarrow> int \<Rightarrow> rat \<Rightarrow> nat \<Rightarrow> rat list \<Rightarrow> rat list \<times> string option outcome"
where
  "capture_chat_loop post max_retries backoff_initial attempt slept =
     (case try_post (post (Suc attempt)) of
        Done data \<Rightarrow> (slept, Returned data)
      | Uncaught e \<Rightarrow> (slept, Raised e)
      | Caught is_request_exception status \<Rightarrow>
          if int (Suc attempt) > max_retries
          then (slept, Raised (failed_after max_retries))
          else capture_chat_loop post max_retries backoff_initial (Suc attempt)
                 (slept @ [backoff_initial * 2 ^ (Suc attempt - 1)]))"
  by pat_completeness auto
termination
  by (relation "measure (\<lambda>(post, max_retries, backoff_initial, attempt, slept).
                           nat (max_retries + 1 - int attempt))") auto

declare capture_chat_loop.simps [simp del]

definition capture_chat ::
  "(nat \<Rightarrow> post_result) \<Rightarrow> int \<Rightarrow> rat \<Rightarrow> rat list \<times> string option outcome"
where
  "capture_chat post max_retries backoff_initial =
     capture_chat_loop post max_retries backoff_initial 0 []"

definition capture_chat_with_vision ::
  "(nat \<Rightarrow> post_result) \<Rightarrow> bool \<Rightarrow> rat list \<times> string option outcome"
where
  "capture_chat_with_vision post images_exist =
     (if \<not> images_exist then ([], Raised ValueError)
      else capture_chat post 3 2)"

section \<open>The run: \<open>main\<close>\<close>

record main_args =
  arg_html_path :: string
  arg_duration :: rat
  arg_fps :: rat
  arg_prompt :: string
  arg_model :: string
  arg_output_dir :: string

text \<open>
  What the run meets outside: the local file and its URI, whether starting the browser
  raises, one connection environment per protocol helper call, the capture environment,
  the time stamp, the API key, the captured files, the replies of the vision endpoint,
  and whether the browser is still alive two seconds after \<^verbatim>\<open>terminate\<close>.
\<close>

record main_env =
  file_exists :: bool
  file_uri :: string
  file_name :: string
  popen_fails :: bool
  load_session :: session_env
  front_session :: session_env
  set_bounds_session :: session_env
  get_bounds_session :: session_env
  eval_session :: session_env
  capture :: capture_env
  stamp :: string
  api_key_set :: bool
  frames_readable :: bool
  post_replies :: "nat \<Rightarrow> post_result"
  wait_times_out :: bool

datatype printed =
    FileNotFoundMsg
  | LaunchingMsg string
  | RawBoundsMsg bounds_dict
  | ViewportMetricsMsg viewport
  | CaptureRegionMsg region
  | CapturingMsg rat rat
  | CapturedMsg nat string
  | AnalyzingMsg string
  | AnalysisResultMsg string
  | ErrorMsg string

datatype main_effect =
    Print printed
  | Mkdtemp
  | Popen string
  | Files "capture_effect list"
  | Terminate
  | WaitExit
  | Kill
  | Rmtree

text \<open>
  \<^verbatim>\<open>str(e)\<close>, the text after \<open>ERROR:\<close>: the message the code gives the exception where
  it raises it itself, a usual text for the exceptions of library calls.
\<close>

definition exn_str :: "exn \<Rightarrow> string" where
  "exn_str e =
     (case e of
        RuntimeError msg \<Rightarrow> msg
      | OpenRouterError msg \<Rightarrow> msg
      | ZeroDivisionError \<Rightarrow> ''float division by zero''
      | OSError \<Rightarrow> ''[Errno 13] Permission denied''
      | FileNotFoundError \<Rightarrow> ''[Errno 2] No such file or directory''
      | ScreenShotError k \<Rightarrow> ''screen grab failed''
      | WebSocketTimeoutException \<Rightarrow> ''timed out''
      | WebSocketException \<Rightarrow> ''connection failed''
      | KeyError \<Rightarrow> [CHR 0x27] @ ''choices'' @ [CHR 0x27]
      | ValueError \<Rightarrow> ''Image file does not exist'')"

definition starts_with :: "string \<Rightarrow> string \<Rightarrow> bool" where
  "starts_with p s = (take (length p) s = p)"

text \<open>Lines 338 to 373: load wait, window placement, bounds, viewport, region.\<close>

definition geometry :: "main_env \<Rightarrow> string \<Rightarrow> main_effect list \<times> region outcome" where
  "geometry env url =
     (case snd (wait_for_load_event (load_session env) url) of
        Raised e \<Rightarrow> ([], Raised e)
      | Returned u1 \<Rightarrow>
     (case snd (bring_target_to_front (front_session env) url) of
        Raised e \<Rightarrow> ([], Raised e)
      | Returned u2 \<Rightarrow>
     (case snd (set_window_bounds (set_bounds_session env) url) of
        Raised e \<Rightarrow> ([], Raised e)
      | Returned u3 \<Rightarrow>
     (case snd (get_window_bounds (get_bounds_session env) url) of
        Raised e \<Rightarrow> ([], Raised e)
      | Returned b \<Rightarrow>
          if bounds_falsy b
          then ([], Raised (RuntimeError ''Failed to read Chrome window bounds from DevTools.''))
          else
            (case snd (evaluate_script (eval_session env) url) of
               Raised e \<Rightarrow> ([Print (RawBoundsMsg (the b))], Raised e)
             | Returned vp \<Rightarrow>
                 (let shown = Print (RawBoundsMsg (the b)) #
                        (case vp of Some v \<Rightarrow> [Print (ViewportMetricsMsg v)] | None \<Rightarrow> [])
                  in case check_region (compute_region (the b) vp) of
                       Raised e \<Rightarrow> (shown, Raised e)
                     | Returned rg \<Rightarrow> (shown @ [Print (CaptureRegionMsg rg)], Returned rg)))))))"

text \<open>Lines 388 to 401: the vision request and the printed answer.\<close>

definition analyze :: "main_env \<Rightarrow> main_args \<Rightarrow> main_effect list \<times> unit outcome" where
  "analyze env args =
     (if \<not> api_key_set env
      then ([Print (AnalyzingMsg (arg_model args))],
            Raised (OpenRouterError ''OPENROUTER_API_KEY environment variable must be set.''))
      else
        (case snd (capture_chat_with_vision (post_replies env) (frames_readable env)) of
           Raised e \<Rightarrow> ([Print (AnalyzingMsg (arg_model args))], Raised e)
         | Returned data \<Rightarrow>
             (case data of
                None \<Rightarrow> ([Print (AnalyzingMsg (arg_model args))], Raised KeyError)
              | Some content \<Rightarrow>
                  ([Print (AnalyzingMsg (arg_model args)), Print (AnalysisResultMsg content)],
                   Returned ()))))"

text \<open>
  The body of the \<^verbatim>\<open>try\<close> statement, lines 338 to 401.  The call of \<open>_focus_chrome\<close>
  is left out: it swallows every failure and returns nothing.
\<close>

definition try_block ::
  "main_env \<Rightarrow> main_args \<Rightarrow> string \<Rightarrow> (main_effect list \<times> unit outcome) option"
where
  "try_block env args url =
     (case geometry env url of
        (shown, Raised e) \<Rightarrow> Some (shown, Raised e)
      | (shown, Returned rg) \<Rightarrow>
          (let out = arg_output_dir args @ ''/video_'' @ stamp env;
               announced = shown @ [Print (CapturingMsg (arg_duration args) (arg_fps args))]
           in case capture_frames (capture env) rg (arg_duration args) (arg_fps args) out of
                None \<Rightarrow> None
              | Some (written, Raised e) \<Rightarrow> Some (announced @ [Files written], Raised e)
              | Some (written, Returned frame_paths) \<Rightarrow>
                  (case analyze env args of
                     (said, r) \<Rightarrow>
                       Some (announced
                               @ [Files written, Print (CapturedMsg (length frame_paths) out)]
                               @ said, r))))"

text \<open>The \<^verbatim>\<open>finally\<close> clause, lines 405 to 411.\<close>

definition cleanup :: "main_env \<Rightarrow> main_effect list" where
  "cleanup env = [Terminate, WaitExit] @ (if wait_times_out env then [Kill] else []) @ [Rmtree]"

text \<open>Lines 305 to 314: the URL to load and the name shown.\<close>

definition is_remote :: "main_args \<Rightarrow> bool" where
  "is_remote args =
     (starts_with ''http://'' (arg_html_path args) \<or> starts_with ''https://'' (arg_html_path args))"

definition run_url :: "main_env \<Rightarrow> main_args \<Rightarrow> string" where
  "run_url env args = (if is_remote args then arg_html_path args else file_uri env)"

definition run_name :: "main_env \<Rightarrow> main_args \<Rightarrow> string" where
  "run_name env args = (if is_remote args then ''remote_url'' else file_name env)"

text \<open>
  \<open>main\<close> after the parsing of the arguments.  The result is what the run did, in order,
  and how the coroutine ended: \<open>Returned\<close> when it returns, \<open>Raised\<close> when an exception
  leaves it.  \<open>None\<close> is a run that never ends.  The choice of the port and
  \<^verbatim>\<open>tempfile.mkdtemp\<close> are taken to succeed; the start of the browser, which stands
  between \<^verbatim>\<open>mkdtemp\<close> and the \<^verbatim>\<open>try\<close> statement, may raise.
\<close>

definition main :: "main_env \<Rightarrow> main_args \<Rightarrow> (main_effect list \<times> unit outcome) option" where
  "main env args =
     (if \<not> is_remote args \<and> \<not> file_exists env
      then Some ([Print FileNotFoundMsg], Returned ())
      else if popen_fails env
      then Some ([Mkdtemp, Print (LaunchingMsg (run_name env args))], Raised FileNotFoundError)
      else
        (case try_block env args (run_url env args) of
           None \<Rightarrow> None
         | Some (did, r) \<Rightarrow>
             Some ([Mkdtemp, Print (LaunchingMsg (run_name env args)), Popen (run_url env args)]
                     @ did
                     @ (case r of
                          Raised e \<Rightarrow> [Print (ErrorMsg (exn_str e))]
                        | Returned u \<Rightarrow> [])
                     @ cleanup env,
                   Returned ())))"

text \<open>
  The exit status of the process: \<^verbatim>\<open>asyncio.run(main())\<close> is the last statement of the
  script, so the status is 0 when \<open>main\<close> returns and 1 when an exception leaves it.
\<close>

definition exit_status :: "unit outcome \<Rightarrow> nat" where
  "exit_status r = (case r of Returned u \<Rightarrow> 0 | Raised e \<Rightarrow> 1)"

text \<open>
  The state of the two scoped resources after a run, read off what the run did: the
  profile directory exists once created and until removed, the browser runs once started
  and until it has been terminated (and killed, had it not exited).
\<close>

definition profile_dir_left :: "main_effect list \<Rightarrow> bool" where
  "profile_dir_left did = (Mkdtemp \<in> set did \<and> Rmtree \<notin> set did)"

definition is_popen :: "main_effect \<Rightarrow> bool" where
  "is_popen x = (case x of Popen u \<Rightarrow> True | _ \<Rightarrow> False)"

definition browser_left :: "main_effect list \<Rightarrow> bool" where
  "browser_left did = (list_ex is_popen did \<and> Terminate \<notin> set did)"

section \<open>Concrete environments\<close>

text \<open>
  A capture environment in which nothing fails and the clock advances by one second
  per reading.
\<close>

definition steady_env :: capture_env where
  "steady_env = \<lparr>mkdir_fails = False, perf_counter = (\<lambda>n. of_nat n), grab_fails = (\<lambda>k. False)\<rparr>"

definition example_region :: region where
  "example_region = \<lparr>left = 0, top = 90, width = 1280, height = 690\<rparr>"


text \<open>
  A desired URL and three discovered pages: one with exactly that URL, one with another
  URL whose file name is the same, and one with exactly that URL but no socket URL.
\<close>

definition page_url :: string where
  "page_url = ''file:///tmp/demo/index.html''"

definition exact_entry :: debug_target where
  "exact_entry =
     \<lparr>entry_type = Some ''page'',
      entry_url = Some ''file:///tmp/demo/index.html'',
      entry_ws = Some ''ws://127.0.0.1:9222/devtools/page/A'',
      entry_id = Some ''A'',
      entry_targetId = None\<rparr>"

definition basename_entry :: debug_target where
  "basename_entry =
     \<lparr>entry_type = Some ''page'',
      entry_url = Some ''file:///tmp/other/index.html'',
      entry_ws = Some ''ws://127.0.0.1:9222/devtools/page/B'',
      entry_id = Some ''B'',
      entry_targetId = None\<rparr>"

definition socketless_entry :: debug_target where
  "socketless_entry =
     \<lparr>entry_type = Some ''page'',
      entry_url = Some ''file:///tmp/demo/index.html'',
      entry_ws = None,
      entry_id = Some ''C'',
      entry_targetId = None\<rparr>"

definition timed_out :: exn where
  "timed_out = RuntimeError ''Timed out waiting for DevTools endpoint''"

text \<open>
  The window bounds and viewport metrics of the example of the design text, and a
  viewport whose outer width exceeds the inner width by one pixel.
\<close>

definition example_bounds :: bounds_dict where
  "example_bounds =
     \<lparr>b_left = Some 0, b_top = Some 30, b_width = Some 1280, b_height = Some 690,
      b_windowState = None\<rparr>"

definition example_viewport :: viewport where
  "example_viewport =
     \<lparr>screenX = 0, screenY = 30, ow = 1280, oh = 750, iw = 1280, ih = 690\<rparr>"

definition odd_viewport :: viewport where
  "odd_viewport =
     \<lparr>screenX = 0, screenY = 30, ow = 1281, oh = 750, iw = 1280, ih = 690\<rparr>"

text \<open>Incoming messages: an event, and responses carrying a window id or bounds.\<close>

definition event_msg :: "string \<Rightarrow> cdp_message" where
  "event_msg m = \<lparr>msg_id = None, msg_method = Some m, msg_result = None\<rparr>"

definition window_msg :: "int \<Rightarrow> int \<Rightarrow> cdp_message" where
  "window_msg i w =
     \<lparr>msg_id = Some i, msg_method = None,
      msg_result = Some \<lparr>windowId = Some w, bounds = None, eval_value = None\<rparr>\<rparr>"

definition bounds_msg :: "int \<Rightarrow> bounds_dict \<Rightarrow> cdp_message" where
  "bounds_msg i b =
     \<lparr>msg_id = Some i, msg_method = None,
      msg_result = Some \<lparr>windowId = None, bounds = Some b, eval_value = None\<rparr>\<rparr>"

definition value_msg :: "int \<Rightarrow> viewport \<Rightarrow> cdp_message" where
  "value_msg i v =
     \<lparr>msg_id = Some i, msg_method = None,
      msg_result = Some \<lparr>windowId = None, bounds = None, eval_value = Some v\<rparr>\<rparr>"

definition ack_msg :: "int \<Rightarrow> cdp_message" where
  "ack_msg i =
     \<lparr>msg_id = Some i, msg_method = None,
      msg_result = Some \<lparr>windowId = None, bounds = None, eval_value = None\<rparr>\<rparr>"

text \<open>A connection on which the target is found at the first poll.\<close>

definition session_with :: "recv list \<Rightarrow> session_env" where
  "session_with msgs = \<lparr>polls = [Payload [exact_entry]], connect_fails = False, received = msgs\<rparr>"


text \<open>
  A page that never reports its load: every \<^verbatim>\<open>recv\<close> of the ten seconds, half a second
  each, times out.
\<close>

definition silent_session :: session_env where
  "silent_session = session_with (replicate 20 (RecvRaises WebSocketTimeoutException))"

text \<open>A run in which everything works, on a local file.\<close>

definition local_args :: main_args where
  "local_args =
     \<lparr>arg_html_path = ''index.html'', arg_duration = 1, arg_fps = 3,
      arg_prompt = ''Describe what is happening in these frames.'',
      arg_model = ''qwen/qwen3-vl-8b-instruct'', arg_output_dir = ''artifacts''\<rparr>"

definition ok_reply :: post_result where
  "ok_reply = PostReturns \<lparr>status_code = 200, body = Data (Some ''A red square moves.'')\<rparr>"

definition happy_env :: main_env where
  "happy_env =
     \<lparr>file_exists = True,
      file_uri = page_url,
      file_name = ''index.html'',
      popen_fails = False,
      load_session = session_with [Recv (event_msg ''Page.loadEventFired'')],
      front_session = session_with [Recv (ack_msg 1)],
      set_bounds_session = session_with [Recv (window_msg 1 7), Recv (ack_msg 2)],
      get_bounds_session = session_with [Recv (window_msg 3 7), Recv (bounds_msg 4 example_bounds)],
      eval_session = session_with [Recv (value_msg 50 example_viewport)],
      capture = steady_env,
      stamp = ''20250101_120000'',
      api_key_set = True,
      frames_readable = True,
      post_replies = (\<lambda>k. ok_reply),
      wait_times_out = False\<rparr>"

text \<open>The browser executable cannot be started: \<^verbatim>\<open>subprocess.Popen\<close> raises.\<close>

definition no_browser_env :: main_env where
  "no_browser_env = happy_env\<lparr>popen_fails := True\<rparr>"

text \<open>The discovery endpoint never answers during the load wait.\<close>

definition no_endpoint_env :: main_env where
  "no_endpoint_env =
     happy_env\<lparr>load_session := \<lparr>polls = replicate 3 PollFailed, connect_fails = False, received = []\<rparr>\<rparr>"

text \<open>
  The failures the retry handler is written for: a response with one of the listed
  statuses, or a request that brought no response.  The delays \<open>d, 2d, 4d, \<dots>\<close>.
\<close>

definition retryable_failure :: "post_result \<Rightarrow> bool" where
  "retryable_failure p =
     (case p of PostRaises \<Rightarrow> True | PostReturns response \<Rightarrow> status_code response \<in> retry_statuses)"

definition backoff :: "rat \<Rightarrow> nat \<Rightarrow> nat \<Rightarrow> rat list" where
  "backoff d a n = map (\<lambda>k. d * 2 ^ k) [a..<a + n]"


text \<open>
  Replies of the vision endpoint: always 503; 429 once and then the answer; an error
  payload; no connection once and then the answer.
\<close>

definition busy_replies :: "nat \<Rightarrow> post_result" where
  "busy_replies k = PostReturns \<lparr>status_code = 503, body = NotJSON False\<rparr>"

definition busy_once_replies :: "nat \<Rightarrow> post_result" where
  "busy_once_replies k =
     (if k = 1 then PostReturns \<lparr>status_code = 429, body = NotJSON False\<rparr> else ok_reply)"

definition refused_replies :: "nat \<Rightarrow> post_result" where
  "refused_replies k = PostReturns \<lparr>status_code = 200, body = ErrorPayload ''quota exceeded''\<rparr>"

definition offline_once_replies :: "nat \<Rightarrow> post_result" where
  "offline_once_replies k = (if k = 1 then PostRaises else ok_reply)"

section \<open>The capture loop\<close>









lemma capture_loop_raises:
  assumes "capture_loop env dir st iv tgt tick fc ps = Some y"
  shows "snd y \<noteq> Some ZeroDivisionError"
  by (rule capture_loop.raw_induct
        [where P = "\<lambda>env dir st iv tgt tick fc ps y. snd y \<noteq> Some ZeroDivisionError", OF _ assms])
     (auto split: if_splits)

text \<open>
  C10.  The quotient \<open>1.0 / fps\<close> is not guarded.  With \<open>fps = 0\<close> the call raises
  \<open>ZeroDivisionError\<close>, and the output directory has been created by then; with any other
  \<open>fps\<close> no run of the function ends in that exception.
\<close>

theorem capture_frames_zero_fps:
  "(\<not> mkdir_fails env \<longrightarrow>
      capture_frames env rg d 0 out = Some ([Mkdir out], Raised ZeroDivisionError))
   \<and> (r \<noteq> 0 \<longrightarrow> capture_frames env rg d r out \<noteq> Some (did, Raised ZeroDivisionError))"
proof (intro conjI impI)
  show "\<not> mkdir_fails env \<Longrightarrow>
           capture_frames env rg d 0 out = Some ([Mkdir out], Raised ZeroDivisionError)"
    by (simp add: capture_frames_def)
next
  assume nz: "r \<noteq> 0"
  show "capture_frames env rg d r out \<noteq> Some (did, Raised ZeroDivisionError)"
  proof (cases "mkdir_fails env")
    case True
    then show ?thesis by (simp add: capture_frames_def)
  next
    case False
    show ?thesis
    proof (cases "capture_loop env out (perf_counter env 0) (1 / r) (py_int (d * r)) 1 0 []")
      case None
      then show ?thesis using False nz by (simp add: capture_frames_def)
    next
      case (Some y)
      from capture_loop_raises [OF Some] show ?thesis
        using False nz Some by (cases y) (auto simp: capture_frames_def split: option.splits)
    qed
  qed
qed

theorem capture_frames_zero_fps_witness:
  "\<not> mkdir_fails steady_env
   \<and> capture_frames steady_env example_region 5 0 ''out''
       = Some ([Mkdir ''out''], Raised ZeroDivisionError)
   \<and> (2::rat) \<noteq> 0
   \<and> capture_frames steady_env example_region 5 2 ''out'' \<noteq> Some ([], Raised ZeroDivisionError)"
  using capture_frames_zero_fps [of steady_env example_region 5 "''out''" 2 "[]"]
  by (simp add: steady_env_def)

section \<open>Target discovery\<close>

lemma matches_exact: "url_matches page_url exact_entry"
  by code_simp

lemma matches_basename: "url_matches page_url basename_entry"
  by code_simp



lemma scan_entries_drop_socketless:
  assumes "\<not> truthy (entry_ws e)"
  shows "scan_entries target_url (before @ e # rest) = scan_entries target_url (before @ rest)"
  using assms by (induction before) (auto simp: Let_def)




lemma resolver_returns_socket:
  "scan_entries t payload = Returned (Some (ws, tid)) \<Longrightarrow> ws \<noteq> []"
  by (induction payload) (auto simp: Let_def truthy_def split: if_splits option.splits)

lemma resolver_result:
  "(wait_for_debugger_target ps t = Returned (ws, tid) \<longrightarrow> ws \<noteq> [])
   \<and> (wait_for_debugger_target ps t = Raised ex \<longrightarrow> ex = timed_out)"
proof (induction ps t rule: wait_for_debugger_target.induct)
  case (1 t)
  then show ?case by (simp add: timed_out_def)
next
  case (2 polls t)
  then show ?case by simp
next
  case (3 payload polls t)
  then show ?case
    by (auto split: outcome.splits option.splits dest: resolver_returns_socket)
qed

text \<open>
  C8, as amended.  A page that matches but has no socket URL is skipped: the result is
  the same as without that entry.  It is never returned (the returned socket URL is not
  empty), and it raises no error of its own: the only error that leaves the resolution is
  the time-out, when no entry with a socket URL has matched.
\<close>

theorem resolver_skips_socketless:
  "(\<not> truthy (entry_ws e) \<longrightarrow>
      wait_for_debugger_target (Payload (before @ e # rest) # later) t
        = wait_for_debugger_target (Payload (before @ rest) # later) t)
   \<and> (wait_for_debugger_target ps t = Returned (ws, tid) \<longrightarrow> ws \<noteq> [])
   \<and> (wait_for_debugger_target ps t = Raised ex \<longrightarrow> ex = timed_out)"
  using resolver_result [of ps t ws tid ex]
  by (simp add: scan_entries_drop_socketless)

theorem resolver_skips_socketless_witness:
  "\<not> truthy (entry_ws socketless_entry)
   \<and> wait_for_debugger_target (Payload ([] @ socketless_entry # [exact_entry]) # []) page_url
       = wait_for_debugger_target (Payload ([] @ [exact_entry]) # []) page_url
   \<and> wait_for_debugger_target [Payload [exact_entry]] page_url
       = Returned (''ws://127.0.0.1:9222/devtools/page/A'', ''A'')
   \<and> ''ws://127.0.0.1:9222/devtools/page/A'' \<noteq> []
   \<and> wait_for_debugger_target [Payload [socketless_entry]] page_url = Raised timed_out"
proof -
  have r: "wait_for_debugger_target [Payload [exact_entry]] page_url
       = Returned (''ws://127.0.0.1:9222/devtools/page/A'', ''A'')"
    using matches_exact by (simp add: exact_entry_def truthy_def py_or_def)
  have s: "wait_for_debugger_target [Payload [socketless_entry]] page_url = Raised timed_out"
    by (simp add: socketless_entry_def truthy_def timed_out_def)
  show ?thesis
    using resolver_skips_socketless [of socketless_entry "[]" "[exact_entry]" "[]" page_url
        "[Payload [exact_entry]]" "''ws://127.0.0.1:9222/devtools/page/A''" "''A''" timed_out]
      r s
    by (simp add: socketless_entry_def truthy_def)
qed

text \<open>
  C8 as stated fails: with a matching page without a socket URL in the list, the
  resolution still succeeds on a later entry; and when it fails, it fails exactly as on an
  empty list.
\<close>

theorem resolver_socketless_counterexample:
  "entry_type socketless_entry = Some ''page''
   \<and> entry_url socketless_entry = Some page_url
   \<and> entry_ws socketless_entry = None
   \<and> wait_for_debugger_target [Payload [socketless_entry, basename_entry]] page_url
       = Returned (''ws://127.0.0.1:9222/devtools/page/B'', ''B'')
   \<and> wait_for_debugger_target [Payload [socketless_entry]] page_url
       = wait_for_debugger_target [Payload []] page_url"
  using matches_basename
  by (simp add: socketless_entry_def basename_entry_def page_url_def truthy_def py_or_def)

section \<open>Capture region\<close>

lemma floor_half: "\<lfloor>(of_int k :: rat) / 2\<rfloor> = k div 2"
  using floor_divide_of_int_eq [of k 2, where ?'a = rat] by simp

text \<open>
  C4, as amended.  When the viewport evaluation succeeds and the bounds carry \<open>left\<close> and
  \<open>top\<close>, the region is \<open>left = bounds.left + \<lfloor>(ow - iw) / 2\<rfloor>\<close>, \<open>top = bounds.top + (oh - ih)\<close>,
  \<open>width = iw\<close>, \<open>height = ih\<close>: the quotient is rounded down to a whole pixel.  It is the
  exact quotient of the design text whenever \<open>ow - iw\<close> is even.
\<close>

theorem region_from_viewport:
  assumes "b_left bnds = Some bl" and "b_top bnds = Some bt"
  shows "compute_region bnds (Some v) =
           \<lparr>left = bl + \<lfloor>(of_int (ow v - iw v) :: rat) / 2\<rfloor>,
            top = bt + (oh v - ih v),
            width = iw v,
            height = ih v\<rparr>
         \<and> (even (ow v - iw v) \<longrightarrow>
              of_int (left (compute_region bnds (Some v))) = spec_region_left bl v)"
proof -
  have a: "compute_region bnds (Some v) =
           \<lparr>left = bl + \<lfloor>(of_int (ow v - iw v) :: rat) / 2\<rfloor>,
            top = bt + (oh v - ih v), width = iw v, height = ih v\<rparr>"
    using assms floor_half [of "ow v - iw v"]
    by (simp add: compute_region_def get0_def Let_def)
  have b: "of_int (left (compute_region bnds (Some v))) = spec_region_left bl v"
    if "even (ow v - iw v)"
  proof -
    from that obtain k where k: "ow v - iw v = 2 * k" unfolding even_iff_mod_2_eq_zero
      by (metis mult_div_mod_eq add.right_neutral)
    then have "(of_int (ow v) :: rat) - of_int (iw v) = 2 * of_int k"
      by (metis of_int_diff of_int_mult of_int_numeral)
    then show ?thesis
      using assms k by (simp add: compute_region_def get0_def Let_def spec_region_left_def)
  qed
  show ?thesis using a b by blast
qed

theorem region_from_viewport_witness:
  "b_left example_bounds = Some 0 \<and> b_top example_bounds = Some 30
   \<and> compute_region example_bounds (Some example_viewport)
       = \<lparr>left = 0, top = 90, width = 1280, height = 690\<rparr>
   \<and> even (ow example_viewport - iw example_viewport)
   \<and> of_int (left (compute_region example_bounds (Some example_viewport)))
       = spec_region_left 0 example_viewport"
  using region_from_viewport [of example_bounds 0 30 example_viewport]
  by (simp add: example_bounds_def example_viewport_def spec_region_left_def)

text \<open>
  C4 as stated, with the exact quotient, fails when \<open>ow - iw\<close> is odd: for an outer width
  of 1281 and an inner width of 1280 the left edge is 0, not one half.
\<close>

theorem region_exact_quotient_counterexample:
  "b_left example_bounds = Some 0
   \<and> left (compute_region example_bounds (Some odd_viewport)) = 0
   \<and> spec_region_left 0 odd_viewport = 1 / 2
   \<and> of_int (left (compute_region example_bounds (Some odd_viewport)))
       \<noteq> spec_region_left 0 odd_viewport"
  by (simp add: compute_region_def get0_def example_bounds_def odd_viewport_def
        spec_region_left_def)

section \<open>Responses and correlation ids\<close>






section \<open>Load wait\<close>

lemma load_event_loop_silent:
  assumes "\<forall>x \<in> set rs. x = RecvRaises WebSocketTimeoutException
             \<or> (\<exists>msg. x = Recv msg \<and> msg_method msg \<noteq> Some ''Page.loadEventFired'')"
  shows "load_event_loop rs = Returned ()"
  using assms by (induction rs rule: load_event_loop.induct) auto

text \<open>
  C3.  The claim asks for an error when the load event does not arrive in time.  Here
  nothing arrives for the whole wait: every \<^verbatim>\<open>recv\<close> times out.  The function leaves its
  loop and returns normally.
\<close>

theorem load_wait_returns_on_timeout:
  "received silent_session = replicate 20 (RecvRaises WebSocketTimeoutException)
   \<and> wait_for_load_event silent_session page_url
       = ([Request 1 ''Page.enable'', Request 2 ''Page.reload''], Returned ())"
  by code_simp

section \<open>The run and its cleanup\<close>

text \<open>
  Once the browser has been started, every run that ends has gone through the
  \<^verbatim>\<open>finally\<close> clause last, and returns.
\<close>

lemma main_after_launch:
  assumes "is_remote args \<or> file_exists env" and "\<not> popen_fails env"
    and "main env args = Some (did, r)"
  shows "r = Returned () \<and> (\<exists>before. did = before @ cleanup env)"
  using assms by (auto simp: main_def split: option.splits prod.splits)

lemma cleanup_ends_resources:
  "\<not> profile_dir_left (before @ cleanup env) \<and> \<not> browser_left (before @ cleanup env)
   \<and> (wait_times_out env \<longrightarrow> Kill \<in> set (cleanup env))"
  by (simp add: cleanup_def profile_dir_left_def browser_left_def)

text \<open>
  C2.  The claim asks for the profile directory to be removed on every exit path.  The
  directory is created before the browser is started, and the start is outside the
  \<^verbatim>\<open>try\<close> statement: when \<^verbatim>\<open>Popen\<close> raises, the exception leaves \<open>main\<close> and the
  directory made by \<^verbatim>\<open>mkdtemp\<close> stays.
\<close>

theorem launch_failure_leaves_profile_dir:
  "popen_fails no_browser_env
   \<and> main no_browser_env local_args
       = Some ([Mkdtemp, Print (LaunchingMsg ''index.html'')], Raised FileNotFoundError)
   \<and> profile_dir_left [Mkdtemp, Print (LaunchingMsg ''index.html'')]
   \<and> exit_status (Raised FileNotFoundError) = 1"
  by (simp add: main_def no_browser_env_def happy_env_def local_args_def is_remote_def
        starts_with_def run_name_def profile_dir_left_def exit_status_def)

text \<open>
  C7, as amended.  When the load wait, a protocol helper or the region check raises, the
  run prints \<open>ERROR:\<close> with the text of the exception, goes through the cleanup, and
  \<open>main\<close> returns: the exit status is 0.
\<close>

theorem failure_reported_exit_zero:
  assumes "is_remote args \<or> file_exists env" and "\<not> popen_fails env"
    and "geometry env (run_url env args) = (shown, Raised e)"
  shows "main env args
           = Some ([Mkdtemp, Print (LaunchingMsg (run_name env args)), Popen (run_url env args)]
                     @ shown @ [Print (ErrorMsg (exn_str e))] @ cleanup env,
                   Returned ())
         \<and> map_option (\<lambda>x. exit_status (snd x)) (main env args) = Some 0"
  using assms by (auto simp: main_def try_block_def exit_status_def)

lemma no_endpoint_geometry:
  "geometry no_endpoint_env (run_url no_endpoint_env local_args) = ([], Raised timed_out)"
  by (simp add: geometry_def no_endpoint_env_def happy_env_def wait_for_load_event_def
        timed_out_def eval_nat_numeral)

theorem failure_reported_exit_zero_witness:
  "(is_remote local_args \<or> file_exists no_endpoint_env) \<and> \<not> popen_fails no_endpoint_env
   \<and> geometry no_endpoint_env (run_url no_endpoint_env local_args) = ([], Raised timed_out)
   \<and> main no_endpoint_env local_args
       = Some ([Mkdtemp, Print (LaunchingMsg ''index.html''), Popen page_url,
                Print (ErrorMsg ''Timed out waiting for DevTools endpoint''),
                Terminate, WaitExit, Rmtree],
               Returned ())
   \<and> map_option (\<lambda>x. exit_status (snd x)) (main no_endpoint_env local_args) = Some 0"
proof -
  have a: "is_remote local_args \<or> file_exists no_endpoint_env" "\<not> popen_fails no_endpoint_env"
    by (simp_all add: no_endpoint_env_def happy_env_def)
  show ?thesis
    using failure_reported_exit_zero [OF a no_endpoint_geometry] a no_endpoint_geometry
    by (simp add: run_name_def run_url_def is_remote_def starts_with_def local_args_def
          no_endpoint_env_def happy_env_def cleanup_def exn_str_def timed_out_def
          exit_status_def)
qed

text \<open>
  C7 as stated fails: the discovery endpoint never answers, the resolution times out, and
  the run ends with the message, the cleanup and the exit status 0.
\<close>

theorem discovery_failure_exit_status_counterexample:
  "wait_for_debugger_target (polls (load_session no_endpoint_env)) page_url = Raised timed_out
   \<and> main no_endpoint_env local_args
       = Some ([Mkdtemp, Print (LaunchingMsg ''index.html''), Popen page_url,
                Print (ErrorMsg ''Timed out waiting for DevTools endpoint''),
                Terminate, WaitExit, Rmtree],
               Returned ())
   \<and> exit_status (Returned ()) = 0"
  using no_endpoint_geometry
  by (simp add: main_def try_block_def run_name_def run_url_def is_remote_def starts_with_def
        local_args_def no_endpoint_env_def happy_env_def cleanup_def exn_str_def timed_out_def
        exit_status_def eval_nat_numeral)

section \<open>Retries of the vision request\<close>

lemma backoff_snoc: "backoff d a n @ [d * 2 ^ (a + n)] = backoff d a (Suc n)"
  by (simp add: backoff_def)

lemma retryable_caught:
  "retryable_failure p \<Longrightarrow> \<exists>st. try_post p = Caught True st"
  by (auto simp: retryable_failure_def try_post_def retry_statuses_def raise_for_status_def
        split: post_result.splits)

lemma chat_loop_retry:
  assumes "retryable_failure (post (Suc a))" and "int (Suc a) \<le> m"
  shows "chat_loop post m d a slept = chat_loop post m d (Suc a) (slept @ [d * 2 ^ a])"
proof -
  obtain st where "try_post (post (Suc a)) = Caught True st"
    using assms(1) retryable_caught by blast
  then show ?thesis using assms(2) by (subst chat_loop.simps) simp
qed

lemma capture_chat_loop_retry:
  assumes "retryable_failure (post (Suc a))" and "int (Suc a) \<le> m"
  shows "capture_chat_loop post m d a slept = capture_chat_loop post m d (Suc a) (slept @ [d * 2 ^ a])"
proof -
  obtain st where "try_post (post (Suc a)) = Caught True st"
    using assms(1) retryable_caught by blast
  then show ?thesis using assms(2) by (subst capture_chat_loop.simps) simp
qed

text \<open>
  After \<open>j\<close> failures of the kind the handler is written for, within the bound, the loop
  stands at attempt \<open>j\<close> and has slept \<open>d, 2d, \<dots>\<close>, \<open>j\<close> times.
\<close>

lemma chat_loop_retries:
  assumes "\<forall>k. a < k \<and> k \<le> a + j \<longrightarrow> retryable_failure (post k)" and "int (a + j) \<le> m"
  shows "chat_loop post m d a slept = chat_loop post m d (a + j) (slept @ backoff d a j)"
  using assms
proof (induction j)
  case 0
  then show ?case by (simp add: backoff_def)
next
  case (Suc j)
  then have "chat_loop post m d a slept = chat_loop post m d (a + j) (slept @ backoff d a j)"
    by simp
  also have "\<dots> = chat_loop post m d (Suc (a + j)) ((slept @ backoff d a j) @ [d * 2 ^ (a + j)])"
    using Suc.prems by (intro chat_loop_retry) auto
  finally show ?case by (simp add: backoff_snoc)
qed

lemma capture_chat_loop_retries:
  assumes "\<forall>k. a < k \<and> k \<le> a + j \<longrightarrow> retryable_failure (post k)" and "int (a + j) \<le> m"
  shows "capture_chat_loop post m d a slept
           = capture_chat_loop post m d (a + j) (slept @ backoff d a j)"
  using assms
proof (induction j)
  case 0
  then show ?case by (simp add: backoff_def)
next
  case (Suc j)
  then have "capture_chat_loop post m d a slept
      = capture_chat_loop post m d (a + j) (slept @ backoff d a j)"
    by simp
  also have "\<dots> = capture_chat_loop post m d (Suc (a + j)) ((slept @ backoff d a j) @ [d * 2 ^ (a + j)])"
    using Suc.prems by (intro capture_chat_loop_retry) auto
  finally show ?case by (simp add: backoff_snoc)
qed

lemma chat_loop_last:
  "retryable_failure (post (Suc a)) \<Longrightarrow> m < int (Suc a) \<Longrightarrow>
     chat_loop post m d a slept = (slept, Raised (failed_after m))"
  "try_post (post (Suc a)) = Done data \<Longrightarrow> chat_loop post m d a slept = (slept, Returned data)"
  "try_post (post (Suc a)) = Uncaught e \<Longrightarrow> chat_loop post m d a slept = (slept, Raised e)"
proof -
  show "retryable_failure (post (Suc a)) \<Longrightarrow> m < int (Suc a) \<Longrightarrow>
     chat_loop post m d a slept = (slept, Raised (failed_after m))"
    using retryable_caught [of "post (Suc a)"] by (subst chat_loop.simps) auto
  show "try_post (post (Suc a)) = Done data \<Longrightarrow> chat_loop post m d a slept = (slept, Returned data)"
    by (subst chat_loop.simps) simp
  show "try_post (post (Suc a)) = Uncaught e \<Longrightarrow> chat_loop post m d a slept = (slept, Raised e)"
    by (subst chat_loop.simps) simp
qed

lemma capture_chat_loop_last:
  "retryable_failure (post (Suc a)) \<Longrightarrow> m < int (Suc a) \<Longrightarrow>
     capture_chat_loop post m d a slept = (slept, Raised (failed_after m))"
  "try_post (post (Suc a)) = Done data \<Longrightarrow> capture_chat_loop post m d a slept = (slept, Returned data)"
  "try_post (post (Suc a)) = Uncaught e \<Longrightarrow> capture_chat_loop post m d a slept = (slept, Raised e)"
proof -
  show "retryable_failure (post (Suc a)) \<Longrightarrow> m < int (Suc a) \<Longrightarrow>
     capture_chat_loop post m d a slept = (slept, Raised (failed_after m))"
    using retryable_caught [of "post (Suc a)"] by (subst capture_chat_loop.simps) auto
  show "try_post (post (Suc a)) = Done data \<Longrightarrow> capture_chat_loop post m d a slept = (slept, Returned data)"
    by (subst capture_chat_loop.simps) simp
  show "try_post (post (Suc a)) = Uncaught e \<Longrightarrow> capture_chat_loop post m d a slept = (slept, Raised e)"
    by (subst capture_chat_loop.simps) simp
qed

text \<open>
  Whatever the replies, the delays slept so far are an initial part of \<open>d, 2d, 4d, \<dots>\<close>,
  and a retry is only made within the bound.
\<close>

lemma chat_loop_schedule:
  "\<exists>n. fst (chat_loop post m d a slept) = slept @ backoff d a n \<and> (n = 0 \<or> int (a + n) \<le> m)"
proof (induction post m d a slept rule: chat_loop.induct)
  case (1 post m d a slept)
  show ?case
  proof (cases "try_post (post (Suc a))")
    case (Done data)
    then have "fst (chat_loop post m d a slept) = slept @ backoff d a 0"
      by (simp add: chat_loop_last backoff_def)
    then show ?thesis by blast
  next
    case (Uncaught e)
    then have "fst (chat_loop post m d a slept) = slept @ backoff d a 0"
      by (simp add: chat_loop_last backoff_def)
    then show ?thesis by blast
  next
    case (Caught rq st)
    show ?thesis
    proof (cases "\<not> ((case st of None \<Rightarrow> False | Some s \<Rightarrow> s \<in> retry_statuses) \<or> rq)
                   \<or> int (Suc a) > m")
      case True
      then have "fst (chat_loop post m d a slept) = slept @ backoff d a 0"
        using Caught by (subst chat_loop.simps) (simp add: backoff_def)
      then show ?thesis by blast
    next
      case False
      then obtain n where n: "fst (chat_loop post m d (Suc a) (slept @ [d * 2 ^ (Suc a - 1)]))
            = (slept @ [d * 2 ^ (Suc a - 1)]) @ backoff d (Suc a) n"
          "n = 0 \<or> int (Suc a + n) \<le> m"
        using "1.IH" [OF Caught] by blast
      have "chat_loop post m d a slept = chat_loop post m d (Suc a) (slept @ [d * 2 ^ (Suc a - 1)])"
        using Caught False by (subst chat_loop.simps) auto
      moreover have "(slept @ [d * 2 ^ (Suc a - 1)]) @ backoff d (Suc a) n = slept @ backoff d a (Suc n)"
        by (simp add: backoff_def upt_conv_Cons)
      ultimately have "fst (chat_loop post m d a slept) = slept @ backoff d a (Suc n)"
        using n(1) by simp
      moreover have "int (a + Suc n) \<le> m" using n(2) False by auto
      ultimately show ?thesis by blast
    qed
  qed
qed

lemma capture_chat_loop_schedule:
  "\<exists>n. fst (capture_chat_loop post m d a slept) = slept @ backoff d a n \<and> (n = 0 \<or> int (a + n) \<le> m)"
proof (induction post m d a slept rule: capture_chat_loop.induct)
  case (1 post m d a slept)
  show ?case
  proof (cases "try_post (post (Suc a))")
    case (Done data)
    then have "fst (capture_chat_loop post m d a slept) = slept @ backoff d a 0"
      by (simp add: capture_chat_loop_last backoff_def)
    then show ?thesis by blast
  next
    case (Uncaught e)
    then have "fst (capture_chat_loop post m d a slept) = slept @ backoff d a 0"
      by (simp add: capture_chat_loop_last backoff_def)
    then show ?thesis by blast
  next
    case (Caught rq st)
    show ?thesis
    proof (cases "int (Suc a) > m")
      case True
      then have "fst (capture_chat_loop post m d a slept) = slept @ backoff d a 0"
        using Caught by (subst capture_chat_loop.simps) (simp add: backoff_def)
      then show ?thesis by blast
    next
      case False
      then obtain n where n: "fst (capture_chat_loop post m d (Suc a) (slept @ [d * 2 ^ (Suc a - 1)]))
            = (slept @ [d * 2 ^ (Suc a - 1)]) @ backoff d (Suc a) n"
          "n = 0 \<or> int (Suc a + n) \<le> m"
        using "1.IH" [OF Caught] by blast
      have "capture_chat_loop post m d a slept
          = capture_chat_loop post m d (Suc a) (slept @ [d * 2 ^ (Suc a - 1)])"
        using Caught False by (subst capture_chat_loop.simps) simp
      moreover have "(slept @ [d * 2 ^ (Suc a - 1)]) @ backoff d (Suc a) n = slept @ backoff d a (Suc n)"
        by (simp add: backoff_def upt_conv_Cons)
      ultimately have "fst (capture_chat_loop post m d a slept) = slept @ backoff d a (Suc n)"
        using n(1) by simp
      moreover have "int (a + Suc n) \<le> m" using n(2) False by auto
      ultimately show ?thesis by blast
    qed
  qed
qed

text \<open>
  C9, as amended, for the client of \<open>controllers/openrouter_client.py\<close> and for its copy
  in \<open>capture_and_analyze_video.py\<close>.  The delays are always \<open>d, 2d, 4d, \<dots>\<close>, at most
  \<open>max_retries\<close> of them.  A failed attempt is retried when it brought one of the statuses
  429, 500, 502, 503, 504 or no response at all (a connection error, a time-out) and the
  bound is not used up: after \<open>j\<close> such failures the answer of attempt \<open>j + 1\<close> is returned,
  and an error payload at attempt \<open>j + 1\<close> is raised at once, without a further delay.
  When \<open>max_retries + 1\<close> attempts have failed in this way the call raises
  \<open>OpenRouterError\<close>, after \<open>max_retries\<close> delays.
\<close>

theorem retry_schedule:
  "(\<exists>n. fst (chat post m d) = backoff d 0 n \<and> int n \<le> max 0 m)
   \<and> (\<exists>n. fst (capture_chat post m d) = backoff d 0 n \<and> int n \<le> max 0 m)
   \<and> ((\<forall>k. 0 < k \<and> k \<le> j \<longrightarrow> retryable_failure (post k)) \<and> int j \<le> m
          \<and> try_post (post (Suc j)) = Done data
        \<longrightarrow> chat post m d = (backoff d 0 j, Returned data)
            \<and> capture_chat post m d = (backoff d 0 j, Returned data))
   \<and> ((\<forall>k. 0 < k \<and> k \<le> j \<longrightarrow> retryable_failure (post k)) \<and> int j \<le> m
          \<and> try_post (post (Suc j)) = Uncaught e
        \<longrightarrow> chat post m d = (backoff d 0 j, Raised e)
            \<and> capture_chat post m d = (backoff d 0 j, Raised e))
   \<and> ((\<forall>k. 0 < k \<and> k \<le> Suc (nat m) \<longrightarrow> retryable_failure (post k))
        \<longrightarrow> chat post m d = (backoff d 0 (nat m), Raised (failed_after m))
            \<and> capture_chat post m d = (backoff d 0 (nat m), Raised (failed_after m)))"
proof (intro conjI impI)
  show "\<exists>n. fst (chat post m d) = backoff d 0 n \<and> int n \<le> max 0 m"
    using chat_loop_schedule [of post m d 0 "[]"] by (auto simp: chat_def)
  show "\<exists>n. fst (capture_chat post m d) = backoff d 0 n \<and> int n \<le> max 0 m"
    using capture_chat_loop_schedule [of post m d 0 "[]"] by (auto simp: capture_chat_def)
next
  assume a: "(\<forall>k. 0 < k \<and> k \<le> j \<longrightarrow> retryable_failure (post k)) \<and> int j \<le> m
          \<and> try_post (post (Suc j)) = Done data"
  then have r: "\<forall>k. 0 < k \<and> k \<le> 0 + j \<longrightarrow> retryable_failure (post k)" "int (0 + j) \<le> m"
    by simp_all
  show "chat post m d = (backoff d 0 j, Returned data)"
    using chat_loop_retries [OF r, of d "[]"] a by (simp add: chat_def chat_loop_last)
  show "capture_chat post m d = (backoff d 0 j, Returned data)"
    using capture_chat_loop_retries [OF r, of d "[]"] a
    by (simp add: capture_chat_def capture_chat_loop_last)
next
  assume a: "(\<forall>k. 0 < k \<and> k \<le> j \<longrightarrow> retryable_failure (post k)) \<and> int j \<le> m
          \<and> try_post (post (Suc j)) = Uncaught e"
  then have r: "\<forall>k. 0 < k \<and> k \<le> 0 + j \<longrightarrow> retryable_failure (post k)" "int (0 + j) \<le> m"
    by simp_all
  show "chat post m d = (backoff d 0 j, Raised e)"
    using chat_loop_retries [OF r, of d "[]"] a by (simp add: chat_def chat_loop_last)
  show "capture_chat post m d = (backoff d 0 j, Raised e)"
    using capture_chat_loop_retries [OF r, of d "[]"] a
    by (simp add: capture_chat_def capture_chat_loop_last)
next
  assume a: "\<forall>k. 0 < k \<and> k \<le> Suc (nat m) \<longrightarrow> retryable_failure (post k)"
  then have r: "\<forall>k. 0 < k \<and> k \<le> 0 + nat m \<longrightarrow> retryable_failure (post k)" "int (0 + nat m) \<le> max 0 m"
    by simp_all
  have l: "retryable_failure (post (Suc (nat m)))" "m < int (Suc (nat m))"
    using a by auto
  show "chat post m d = (backoff d 0 (nat m), Raised (failed_after m))"
  proof (cases "0 \<le> m")
    case True
    then have "int (0 + nat m) \<le> m" by simp
    from chat_loop_retries [OF r(1) this, of d "[]"] l show ?thesis
      by (simp add: chat_def chat_loop_last)
  next
    case False
    then have "nat m = 0" by simp
    then show ?thesis using l by (simp add: chat_def chat_loop_last backoff_def)
  qed
  show "capture_chat post m d = (backoff d 0 (nat m), Raised (failed_after m))"
  proof (cases "0 \<le> m")
    case True
    then have "int (0 + nat m) \<le> m" by simp
    from capture_chat_loop_retries [OF r(1) this, of d "[]"] l show ?thesis
      by (simp add: capture_chat_def capture_chat_loop_last)
  next
    case False
    then have "nat m = 0" by simp
    then show ?thesis using l by (simp add: capture_chat_def capture_chat_loop_last backoff_def)
  qed
qed


theorem retry_schedule_witness:
  "retryable_failure (busy_once_replies 1)
   \<and> try_post (busy_once_replies (Suc 1)) = Done (Some ''A red square moves.'')
   \<and> chat busy_once_replies 3 2 = ([2], Returned (Some ''A red square moves.''))
   \<and> capture_chat busy_once_replies 3 2 = ([2], Returned (Some ''A red square moves.''))
   \<and> try_post (refused_replies (Suc 0))
         = Uncaught (OpenRouterError ''OpenRouter returned error payload: quota exceeded'')
   \<and> chat refused_replies 3 2
         = ([], Raised (OpenRouterError ''OpenRouter returned error payload: quota exceeded''))
   \<and> capture_chat refused_replies 3 2
         = ([], Raised (OpenRouterError ''OpenRouter returned error payload: quota exceeded''))
   \<and> retryable_failure (busy_replies 1) \<and> retryable_failure (busy_replies 2)
   \<and> retryable_failure (busy_replies 3) \<and> retryable_failure (busy_replies 4)
   \<and> chat busy_replies 3 2
         = ([2, 4, 8], Raised (OpenRouterError ''OpenRouter request failed after 3 attempts.''))
   \<and> capture_chat busy_replies 3 2
         = ([2, 4, 8], Raised (OpenRouterError ''OpenRouter request failed after 3 attempts.''))"
proof -
  have a1: "\<forall>k. 0 < k \<and> k \<le> 1 \<longrightarrow> retryable_failure (busy_once_replies k)"
    by (simp add: retryable_failure_def busy_once_replies_def retry_statuses_def)
  have a2: "try_post (busy_once_replies (Suc 1)) = Done (Some ''A red square moves.'')"
    by (simp add: try_post_def busy_once_replies_def ok_reply_def retry_statuses_def
          raise_for_status_def)
  have b1: "\<forall>k. 0 < k \<and> k \<le> 0 \<longrightarrow> retryable_failure (refused_replies k)"
    by simp
  have b2: "try_post (refused_replies (Suc 0))
         = Uncaught (OpenRouterError ''OpenRouter returned error payload: quota exceeded'')"
    by (simp add: try_post_def refused_replies_def retry_statuses_def raise_for_status_def)
  have c1: "\<forall>k. 0 < k \<and> k \<le> Suc (nat 3) \<longrightarrow> retryable_failure (busy_replies k)"
    by (simp add: retryable_failure_def busy_replies_def retry_statuses_def)
  have bk: "backoff 2 0 (Suc 0) = [2]" "backoff 2 0 0 = []" "backoff 2 0 3 = [2, 4, 8]"
    by (simp_all add: backoff_def upt_rec)
  have fa: "failed_after 3 = OpenRouterError ''OpenRouter request failed after 3 attempts.''"
    by code_simp
  show ?thesis
    using retry_schedule [where post = busy_once_replies and j = 1 and m = 3 and d = 2
                            and data = "Some ''A red square moves.''"]
      retry_schedule [where post = refused_replies and j = 0 and m = 3 and d = 2
          and e = "OpenRouterError ''OpenRouter returned error payload: quota exceeded''"]
      retry_schedule [where post = busy_replies and m = 3 and d = 2]
      a1 a2 b1 b2 c1
    by (simp add: bk fa retryable_failure_def busy_replies_def retry_statuses_def)
qed

text \<open>
  C9 as stated fails: a first attempt that fails without any status, because no
  connection could be made, is retried after the first delay.
\<close>

theorem retry_without_status_counterexample:
  "offline_once_replies 1 = PostRaises
   \<and> chat offline_once_replies 3 2 = ([2], Returned (Some ''A red square moves.''))
   \<and> capture_chat offline_once_replies 3 2 = ([2], Returned (Some ''A red square moves.''))"
  by code_simp

end
